theory Spec2Isabelle
  imports Main "HOL-Library.Char_ord" "HOL-Library.List_Lexorder"
begin

section \<open>JavaScript values\<close>

text \<open>
  The client is TypeScript, but what it stores and sends at run time are JavaScript
  values: a token read from a reply can be \<open>undefined\<close>, a caught error is used as if
  it were a reply. Strings are byte strings (for ASCII text, the JavaScript string itself);
  numbers are the integer-valued ones. \<open>JErr name message\<close> is a native error instance
  (\<open>new Error(message)\<close>, a \<open>TypeError\<close>, a \<open>DOMException\<close>); \<open>JObj\<close> is a plain
  object, its own properties in insertion order.
\<close>

datatype js_value =
    JUndefined
  | JNull
  | JBool bool
  | JNum int
  | JStr string
  | JArr "js_value list"
  | JObj "(string \<times> js_value) list"
  | JErr string string

fun digits10 :: "nat \<Rightarrow> string" where
  "digits10 n =
     (if n < 10 then [char_of (48 + n)]
      else digits10 (n div 10) @ [char_of (48 + n mod 10)])"

declare digits10.simps [simp del]

definition join_with :: "string \<Rightarrow> string list \<Rightarrow> string" where
  "join_with sep xs = (case xs of [] \<Rightarrow> [] | y # ys \<Rightarrow> y @ concat (map (\<lambda>z. sep @ z) ys))"

text \<open>
  \<open>to_string\<close> is the conversion a template literal applies (\<open>`Bearer ${token}`\<close>):
  \<open>undefined\<close> becomes the text "undefined", an array joins its elements with commas
  (a null or undefined element is empty), a plain object is "[object Object]", an error
  is \<open>name: message\<close> as \<open>Error.prototype.toString\<close> writes it.
\<close>

fun to_string :: "js_value \<Rightarrow> string" where
  "to_string JUndefined = ''undefined''"
| "to_string JNull = ''null''"
| "to_string (JBool b) = (if b then ''true'' else ''false'')"
| "to_string (JNum n) = (if n < 0 then ''-'' @ digits10 (nat (- n)) else digits10 (nat n))"
| "to_string (JStr s) = s"
| "to_string (JArr vs) =
     join_with '',''
       (map (\<lambda>v. if v = JUndefined \<or> v = JNull then [] else to_string v) vs)"
| "to_string (JObj fs) = ''[object Object]''"
| "to_string (JErr name msg) =
     (if name = [] then msg else if msg = [] then name else name @ '': '' @ msg)"

text \<open>The truth value of a condition: \<open>!x\<close> holds exactly where \<open>truthy x\<close> fails.\<close>

fun truthy :: "js_value \<Rightarrow> bool" where
  "truthy JUndefined = False"
| "truthy JNull = False"
| "truthy (JBool b) = b"
| "truthy (JNum n) = (n \<noteq> 0)"
| "truthy (JStr s) = (s \<noteq> [])"
| "truthy (JArr vs) = True"
| "truthy (JObj fs) = True"
| "truthy (JErr name msg) = True"

text \<open>An optional string field (\<open>string | undefined\<close>) as a JavaScript value.\<close>

definition opt_value :: "string option \<Rightarrow> js_value" where
  "opt_value x = (case x of None \<Rightarrow> JUndefined | Some s \<Rightarrow> JStr s)"

definition type_error :: "js_value \<Rightarrow> js_value" where
  "type_error v = JErr ''TypeError'' (''Cannot read properties of '' @ to_string v)"

text \<open>
  Reading a property, \<open>v.k\<close>: a \<open>TypeError\<close> is thrown on \<open>undefined\<close> and \<open>null\<close>; a
  missing property reads as \<open>undefined\<close>. The client reads only \<open>data\<close>,
  \<open>access_token\<close> and \<open>refresh_token\<close>, which no prototype of a primitive, an array
  or an error defines; the prototypes' own properties (\<open>length\<close>, \<open>stack\<close>, methods)
  are not modelled.
\<close>

fun get_prop :: "js_value \<Rightarrow> string \<Rightarrow> js_value + js_value" where
  "get_prop JUndefined k = Inl (type_error JUndefined)"
| "get_prop JNull k = Inl (type_error JNull)"
| "get_prop (JObj fs) k = Inr (case map_of fs k of None \<Rightarrow> JUndefined | Some v \<Rightarrow> v)"
| "get_prop (JErr name msg) k =
     Inr (if k = ''name'' then JStr name else if k = ''message'' then JStr msg else JUndefined)"
| "get_prop v k = Inr JUndefined"

section \<open>URLSearchParams\<close>

text \<open>
  A \<open>URLSearchParams\<close> object is its list of name-value pairs. \<open>toString()\<close> is the
  application/x-www-form-urlencoded serializer of the URL standard: a space becomes
  \<open>+\<close>, the bytes \<open>* - . _\<close>, digits and letters stay, every other byte is written
  \<open>%HH\<close>. \<open>sort()\<close> is a stable sort by name.
\<close>

type_synonym url_search_params = "(string \<times> string) list"

definition hex_digit :: "nat \<Rightarrow> char" where
  "hex_digit n = (if n < 10 then char_of (48 + n) else char_of (55 + n))"

definition urlencoded_safe :: "char \<Rightarrow> bool" where
  "urlencoded_safe c =
     (let n = (of_char c :: nat) in
        (48 \<le> n \<and> n \<le> 57) \<or> (65 \<le> n \<and> n \<le> 90) \<or> (97 \<le> n \<and> n \<le> 122)
        \<or> n = 42 \<or> n = 45 \<or> n = 46 \<or> n = 95)"

definition urlencode_byte :: "char \<Rightarrow> string" where
  "urlencode_byte c =
     (if c = CHR '' '' then ''+''
      else if urlencoded_safe c then [c]
      else [CHR ''%'', hex_digit ((of_char c :: nat) div 16), hex_digit ((of_char c :: nat) mod 16)])"

definition urlencode :: "string \<Rightarrow> string" where
  "urlencode s = concat (map urlencode_byte s)"

definition usp_toString :: "url_search_params \<Rightarrow> string" where
  "usp_toString ps = join_with ''&'' (map (\<lambda>(k, v). urlencode k @ ''='' @ urlencode v) ps)"

definition usp_append :: "url_search_params \<Rightarrow> string \<Rightarrow> string \<Rightarrow> url_search_params" where
  "usp_append ps k v = ps @ [(k, v)]"

definition usp_sort :: "url_search_params \<Rightarrow> url_search_params" where
  "usp_sort ps = sort_key fst ps"

section \<open>The client\<close>

text \<open>
  The fields of \<open>SpotifyJS\<close>. \<open>accessToken\<close> and \<open>refreshToken\<close> are declared strings,
  but \<open>requestAccessToken\<close> stores whatever the reply holds, so they are JavaScript values.
  \<open>axios_baseURL\<close> and \<open>axios_headers\<close> are \<open>_axiosInstance.defaults.baseURL\<close> and
  \<open>_axiosInstance.defaults.headers\<close>.
\<close>

record client =
  clientId :: string
  clientSecret :: "string option"
  accessToken :: js_value
  refreshToken :: js_value
  scope :: "string option"
  redirectUri :: string
  autoRefreshToken :: "bool option"
  axios_baseURL :: string
  axios_headers :: "string \<rightharpoonup> string"

text \<open>
  \<open>ClientConfig\<close>. \<open>cfg_customAxiosInstance\<close> is the injected instance, given by the
  default headers it comes with; \<open>None\<close> is \<open>axios.create()\<close>, which has no
  \<open>Authorization\<close> header.
\<close>

record client_config =
  cfg_clientId :: string
  cfg_clientSecret :: "string option"
  cfg_accessToken :: string
  cfg_refreshToken :: "string option"
  cfg_scope :: "string option"
  cfg_redirectUri :: string
  cfg_customAxiosInstance :: "(string \<rightharpoonup> string) option"
  cfg_autoRefreshToken :: "bool option"

definition getAccessToken :: "client \<Rightarrow> js_value" where
  "getAccessToken c = accessToken c"

definition setAccessToken :: "client \<Rightarrow> js_value \<Rightarrow> client" where
  "setAccessToken c token =
     c\<lparr>accessToken := token,
       axios_headers := (axios_headers c)(''Authorization'' \<mapsto> ''Bearer '' @ to_string token)\<rparr>"

definition getRefreshToken :: "client \<Rightarrow> js_value" where
  "getRefreshToken c = refreshToken c"

definition setRefreshToken :: "client \<Rightarrow> js_value \<Rightarrow> client" where
  "setRefreshToken c token = c\<lparr>refreshToken := token\<rparr>"

definition new_client :: "client_config \<Rightarrow> client" where
  "new_client config =
     setAccessToken
       \<lparr>clientId = cfg_clientId config,
        clientSecret = cfg_clientSecret config,
        accessToken = JUndefined,
        refreshToken = opt_value (cfg_refreshToken config),
        scope = cfg_scope config,
        redirectUri = cfg_redirectUri config,
        autoRefreshToken = cfg_autoRefreshToken config,
        axios_baseURL = ''https://api.spotify.com/v1'',
        axios_headers = (case cfg_customAxiosInstance config of None \<Rightarrow> Map.empty | Some h \<Rightarrow> h)\<rparr>
       (JStr (cfg_accessToken config))"

subsection \<open>generateAuthorizeUrl\<close>

record authorize_options =
  opt_state :: "string option"
  opt_scope :: "string option"
  opt_show_dialog :: "bool option"

text \<open>
  \<open>options?.field\<close>: \<open>undefined\<close> when \<open>options\<close> is not given. The three guards
  \<open>if (options?.state)\<close>, \<open>if (options?.scope)\<close> and \<open>if (options?.show_dialog)\<close>
  test the truth value: a string passes when it is not empty, a boolean when it is true.
\<close>

definition optional_chain :: "'a option \<Rightarrow> ('a \<Rightarrow> 'b option) \<Rightarrow> 'b option" where
  "optional_chain options field = (case options of None \<Rightarrow> None | Some opts \<Rightarrow> field opts)"

definition authorize_params :: "client \<Rightarrow> authorize_options option \<Rightarrow> url_search_params" where
  "authorize_params c options =
     (let params = [(''client_id'', clientId c),
                    (''response_type'', ''code''),
                    (''redirect_uri'', redirectUri c)];
          params = (case optional_chain options opt_state of
                      None \<Rightarrow> params
                    | Some s \<Rightarrow> if s \<noteq> [] then usp_append params ''state'' s else params);
          params = (case optional_chain options opt_scope of
                      None \<Rightarrow> params
                    | Some s \<Rightarrow> if s \<noteq> [] then usp_append params ''scope'' s else params);
          params = (case optional_chain options opt_show_dialog of
                      None \<Rightarrow> params
                    | Some b \<Rightarrow>
                        if b then usp_append params ''show_dialog'' (if b then ''true'' else ''false'')
                        else params)
      in usp_sort params)"

definition generateAuthorizeUrl :: "client \<Rightarrow> authorize_options option \<Rightarrow> string" where
  "generateAuthorizeUrl c options =
     ''https://accounts.spotify.com/authorize?'' @ usp_toString (authorize_params c options)"

subsection \<open>Reading the query of a URL\<close>

text \<open>
  The query of a URL is what follows the first \<open>?\<close>; its parameters are separated by
  \<open>&\<close>, and in each the key ends at the first \<open>=\<close>. \<open>query_keys\<close> are the keys in
  the order they stand in the URL.
\<close>

fun split_on :: "char \<Rightarrow> string \<Rightarrow> string list" where
  "split_on sep [] = [[]]"
| "split_on sep (x # xs) =
     (if x = sep then [] # split_on sep xs
      else (case split_on sep xs of [] \<Rightarrow> [[x]] | p # ps \<Rightarrow> (x # p) # ps))"

definition query_of :: "string \<Rightarrow> string" where
  "query_of url = tl (dropWhile (\<lambda>c. c \<noteq> CHR ''?'') url)"

definition query_pairs :: "string \<Rightarrow> (string \<times> string) list" where
  "query_pairs url =
     (if query_of url = [] then []
      else map (\<lambda>p. (takeWhile (\<lambda>c. c \<noteq> CHR ''='') p, tl (dropWhile (\<lambda>c. c \<noteq> CHR ''='') p)))
             (split_on CHR ''&'' (query_of url)))"

definition query_keys :: "string \<Rightarrow> string list" where
  "query_keys url = map fst (query_pairs url)"

definition query_delimiter :: "char \<Rightarrow> bool" where
  "query_delimiter x = (x = CHR ''&'' \<or> x = CHR ''='' \<or> x = CHR ''?'')"

section \<open>Requests, the transport and the platform\<close>

text \<open>
  The \<open>config\<close> object handed to \<open>_makeApiRequest\<close>. \<open>headers\<close> and \<open>params\<close> are
  optional; \<open>data\<close> is a string (\<open>URLSearchParams(...).toString()\<close>), a
  \<open>URLSearchParams\<close> object or a plain object.
\<close>

datatype req_data =
    NoData
  | DataString string
  | DataParams url_search_params
  | DataObject "(string \<times> js_value) list"

record request =
  rq_method :: string
  rq_url :: string
  rq_headers :: "(string \<times> string) list option"
  rq_params :: "(string \<times> js_value) list option"
  rq_data :: req_data

text \<open>
  One invocation of the axios instance, \<open>this._axiosInstance(config)\<close>: the instance
  sees its own defaults as they are at that moment, and the config.
\<close>

record sent =
  s_baseURL :: string
  s_defaults :: "string \<rightharpoonup> string"
  s_config :: request

text \<open>
  How a call ends: it throws, or the promise it returns is rejected, or that promise is
  resolved. An \<open>async\<close> function never throws: what its body throws rejects its promise.
\<close>

datatype outcome =
    Throws js_value
  | Rejects js_value
  | Resolves js_value

text \<open>
  What the client does not define: the global \<open>atob\<close> (\<open>Inl\<close> is the value it
  throws) and the behaviour of the axios instance, the injected one or \<open>axios.create()\<close>.
\<close>

record platform =
  env_atob :: "string \<Rightarrow> js_value + string"
  env_axios :: "sent \<Rightarrow> outcome"

text \<open>
  The result of running a method: how it ended, the client afterwards, and the
  invocations of the transport in order.
\<close>

record run =
  r_outcome :: outcome
  r_client :: client
  r_sent :: "sent list"

text \<open>
  \<open>_makeApiRequest\<close>: \<open>try { return (await this._axiosInstance(config)).data } catch
  (error) { return error }\<close>. Whatever the transport throws or rejects with is the value
  returned, and so is the \<open>TypeError\<close> of reading \<open>.data\<close> from a null reply.
\<close>

definition wire :: "client \<Rightarrow> request \<Rightarrow> sent" where
  "wire c config =
     \<lparr>s_baseURL = axios_baseURL c, s_defaults = axios_headers c, s_config = config\<rparr>"

definition makeApiRequest :: "platform \<Rightarrow> client \<Rightarrow> request \<Rightarrow> run" where
  "makeApiRequest env c config =
     (let w = wire c config
      in \<lparr>r_outcome =
            (case env_axios env w of
               Throws e \<Rightarrow> Resolves e
             | Rejects e \<Rightarrow> Resolves e
             | Resolves reply \<Rightarrow>
                 (case get_prop reply ''data'' of
                    Inl e \<Rightarrow> Resolves e
                  | Inr d \<Rightarrow> Resolves d)),
          r_client = c,
          r_sent = [w]\<rparr>)"

subsection \<open>Token exchange\<close>

definition token_url :: string where
  "token_url = ''https://accounts.spotify.com/api/token''"

text \<open>\<open>!this.clientSecret\<close> fails for a secret that is set and not the empty string.\<close>

definition secret_set :: "client \<Rightarrow> bool" where
  "secret_set c = truthy (opt_value (clientSecret c))"

text \<open>The argument of \<open>atob\<close>: \<open>this.clientId + ":" + this.clientSecret\<close>.\<close>

definition credentials :: "client \<Rightarrow> string" where
  "credentials c = clientId c @ '':'' @ to_string (opt_value (clientSecret c))"

definition token_headers :: "string \<Rightarrow> (string \<times> string) list" where
  "token_headers decoded =
     [(''Authorization'', ''Basic '' @ decoded),
      (''Content-Type'', ''application/x-www-form-urlencoded'')]"

definition request_token_config :: "client \<Rightarrow> string \<Rightarrow> string \<Rightarrow> request" where
  "request_token_config c decoded code =
     \<lparr>rq_method = ''POST'',
      rq_url = token_url,
      rq_headers = Some (token_headers decoded),
      rq_params = None,
      rq_data = DataString (usp_toString
                  [(''grant_type'', ''authorization_code''),
                   (''code'', code),
                   (''redirect_uri'', redirectUri c)])\<rparr>"

definition refresh_token_config :: "client \<Rightarrow> string \<Rightarrow> request" where
  "refresh_token_config c decoded =
     \<lparr>rq_method = ''POST'',
      rq_url = token_url,
      rq_headers = Some (token_headers decoded),
      rq_params = None,
      rq_data = DataParams
                  [(''grant_type'', ''refresh_token''),
                   (''refresh_token'', to_string (refreshToken c))]\<rparr>"

text \<open>
  \<open>requestAccessToken\<close> is \<open>async\<close>: the error of its guard rejects the promise. The
  rest of its body is inside \<open>try\<close>, the building of the config included, so what
  \<open>atob\<close> throws, and the \<open>TypeError\<close> of reading a token from a null reply, are caught
  and returned. The value \<open>_makeApiRequest\<close> resolves with is used as the reply, whether
  it is the decoded body or a caught error.
\<close>

definition requestAccessToken :: "platform \<Rightarrow> client \<Rightarrow> string \<Rightarrow> run" where
  "requestAccessToken env c code =
     (if \<not> secret_set c then
        \<lparr>r_outcome = Rejects (JErr ''Error'' ''Client secret must be set to request access token.''),
         r_client = c, r_sent = []\<rparr>
      else
        (case env_atob env (credentials c) of
           Inl e \<Rightarrow> \<lparr>r_outcome = Resolves e, r_client = c, r_sent = []\<rparr>
         | Inr decoded \<Rightarrow>
             (let r = makeApiRequest env c (request_token_config c decoded code) in
              (case r_outcome r of
                 Throws e \<Rightarrow> r\<lparr>r_outcome := Resolves e\<rparr>
               | Rejects e \<Rightarrow> r\<lparr>r_outcome := Resolves e\<rparr>
               | Resolves response \<Rightarrow>
                   (case get_prop response ''access_token'' of
                      Inl e \<Rightarrow> r\<lparr>r_outcome := Resolves e\<rparr>
                    | Inr access \<Rightarrow>
                        (let c1 = setAccessToken (r_client r) access in
                         (case get_prop response ''refresh_token'' of
                            Inl e \<Rightarrow> r\<lparr>r_outcome := Resolves e, r_client := c1\<rparr>
                          | Inr refresh \<Rightarrow>
                              r\<lparr>r_outcome := Resolves response,
                                r_client := setRefreshToken c1 refresh\<rparr>)))))))"

text \<open>
  \<open>refreshAccessToken\<close> is not \<open>async\<close> and has no \<open>try\<close>: its guards, and \<open>atob\<close>,
  throw to the caller. Otherwise it returns the promise of \<open>_makeApiRequest\<close>.
\<close>

definition refreshAccessToken :: "platform \<Rightarrow> client \<Rightarrow> run" where
  "refreshAccessToken env c =
     (if \<not> secret_set c then
        \<lparr>r_outcome = Throws (JErr ''Error'' ''Client secret must be set to refresh token''),
         r_client = c, r_sent = []\<rparr>
      else if \<not> truthy (refreshToken c) then
        \<lparr>r_outcome = Throws (JErr ''Error'' ''Refresh token is not set''),
         r_client = c, r_sent = []\<rparr>
      else
        (case env_atob env (credentials c) of
           Inl e \<Rightarrow> \<lparr>r_outcome = Throws e, r_client = c, r_sent = []\<rparr>
         | Inr decoded \<Rightarrow> makeApiRequest env c (refresh_token_config c decoded)))"

subsection \<open>Endpoint methods\<close>

text \<open>
  One constructor per endpoint method, with the method's arguments: a required argument
  has its declared type, an optional one (and \<open>offset: any\<close> of \<open>startPlayback\<close>) is
  a JavaScript value, \<open>JUndefined\<close> when it is not passed.
\<close>

datatype endpoint_call =
    GetAlbumTracks string js_value js_value js_value
  | GetAlbum string js_value
  | GetSeveralAlbums "string list" js_value
  | GetArtistAlbums string js_value js_value js_value js_value
  | GetArtistsTopTracks string js_value
  | GetArtist string
  | GetPlaybackState
  | SkipToNext js_value
  | SkipToPrevious js_value
  | PausePlayback js_value
  | StartPlayback js_value js_value js_value js_value js_value
  | GetAvailableDevices
  | GetPlaylist string js_value js_value js_value
  | GetPlaylistItems string js_value js_value js_value js_value js_value
  | SetVolume int js_value
  | GetCurrentUsersPlaylist "(js_value \<times> js_value) option"
  | Search string string js_value js_value js_value
  | GetCurrentUserProfile

definition api_request ::
  "string \<Rightarrow> string \<Rightarrow> (string \<times> js_value) list option \<Rightarrow> req_data \<Rightarrow> request" where
  "api_request m u ps d =
     \<lparr>rq_method = m, rq_url = u, rq_headers = None, rq_params = ps, rq_data = d\<rparr>"

fun endpoint_config :: "endpoint_call \<Rightarrow> request" where
  "endpoint_config (GetAlbumTracks album_id market limit offset) =
     api_request ''GET'' (''albums/'' @ album_id @ ''/tracks'')
       (Some [(''market'', market), (''limit'', limit), (''offset'', offset)]) NoData"
| "endpoint_config (GetAlbum album_id market) =
     api_request ''GET'' (''albums/'' @ album_id) (Some [(''market'', market)]) NoData"
| "endpoint_config (GetSeveralAlbums ids market) =
     api_request ''GET'' ''albums''
       (Some [(''ids'', JArr (map JStr ids)), (''market'', market)]) NoData"
| "endpoint_config (GetArtistAlbums artist_id include_groups market limit offset) =
     api_request ''GET'' (''artist/'' @ artist_id @ ''/albums'')
       (Some [(''include_groups'', include_groups), (''market'', market),
              (''limit'', limit), (''offset'', offset)]) NoData"
| "endpoint_config (GetArtistsTopTracks artist_id market) =
     api_request ''GET'' (''artist/'' @ artist_id @ ''/top-tracks'')
       (Some [(''market'', market)]) NoData"
| "endpoint_config (GetArtist artist_id) =
     api_request ''GET'' (''artist/'' @ artist_id) None NoData"
| "endpoint_config GetPlaybackState = api_request ''GET'' ''me/player'' None NoData"
| "endpoint_config (SkipToNext device_id) =
     api_request ''POST'' ''me/player/next'' (Some [(''device_id'', device_id)]) NoData"
| "endpoint_config (SkipToPrevious device_id) =
     api_request ''POST'' ''me/player/previous'' (Some [(''device_id'', device_id)]) NoData"
| "endpoint_config (PausePlayback device_id) =
     api_request ''PUT'' ''me/player/pause'' (Some [(''device_id'', device_id)]) NoData"
| "endpoint_config (StartPlayback device_id context_uri uris offset position_ms) =
     api_request ''PUT'' ''me/player/play'' (Some [(''device_id'', device_id)])
       (DataObject [(''context_uri'', context_uri), (''uris'', uris),
                    (''offset'', offset), (''position_ms'', position_ms)])"
| "endpoint_config GetAvailableDevices = api_request ''GET'' ''me/player/devices'' None NoData"
| "endpoint_config (GetPlaylist playlist_id market flds additional_types) =
     api_request ''GET'' (''playlists/'' @ playlist_id)
       (Some [(''market'', market), (''fields'', flds),
              (''additional_types'', additional_types)]) NoData"
| "endpoint_config (GetPlaylistItems playlist_id market flds limit offset additional_types) =
     api_request ''GET'' (''playlists/'' @ playlist_id @ ''/tracks'')
       (Some [(''market'', market), (''fields'', flds), (''limit'', limit),
              (''offset'', offset), (''additional_types'', additional_types)]) NoData"
| "endpoint_config (SetVolume volume_percent device_id) =
     api_request ''PUT'' ''me/player/volume''
       (Some [(''volume_percent'', JNum volume_percent), (''device_id'', device_id)]) NoData"
| "endpoint_config (GetCurrentUsersPlaylist options) =
     api_request ''GET'' ''me/playlists''
       (Some [(''limit'', (case options of None \<Rightarrow> JUndefined | Some (limit, offset) \<Rightarrow> limit)),
              (''offset'', (case options of None \<Rightarrow> JUndefined | Some (limit, offset) \<Rightarrow> offset))])
       NoData"
| "endpoint_config (Search q ty market limit offset) =
     api_request ''GET'' ''search''
       (Some [(''q'', JStr q), (''type'', JStr ty), (''market'', market),
              (''limit'', limit), (''offset'', offset)]) NoData"
| "endpoint_config GetCurrentUserProfile = api_request ''GET'' ''me'' None NoData"

text \<open>Every endpoint method is \<open>return this._makeApiRequest(config)\<close>.\<close>

definition call_endpoint :: "platform \<Rightarrow> client \<Rightarrow> endpoint_call \<Rightarrow> run" where
  "call_endpoint env c ec = makeApiRequest env c (endpoint_config ec)"

text \<open>
  The arguments of a call that may be \<open>undefined\<close>, each under the name of its
  parameter in the method's signature.
\<close>

fun optional_args :: "endpoint_call \<Rightarrow> (string \<times> js_value) list" where
  "optional_args (GetAlbumTracks album_id market limit offset) =
     [(''market'', market), (''limit'', limit), (''offset'', offset)]"
| "optional_args (GetAlbum album_id market) = [(''market'', market)]"
| "optional_args (GetSeveralAlbums ids market) = [(''market'', market)]"
| "optional_args (GetArtistAlbums artist_id include_groups market limit offset) =
     [(''include_groups'', include_groups), (''market'', market),
      (''limit'', limit), (''offset'', offset)]"
| "optional_args (GetArtistsTopTracks artist_id market) = [(''market'', market)]"
| "optional_args (GetArtist artist_id) = []"
| "optional_args GetPlaybackState = []"
| "optional_args (SkipToNext device_id) = [(''device_id'', device_id)]"
| "optional_args (SkipToPrevious device_id) = [(''device_id'', device_id)]"
| "optional_args (PausePlayback device_id) = [(''device_id'', device_id)]"
| "optional_args (StartPlayback device_id context_uri uris offset position_ms) =
     [(''device_id'', device_id), (''context_uri'', context_uri), (''uris'', uris),
      (''offset'', offset), (''position_ms'', position_ms)]"
| "optional_args GetAvailableDevices = []"
| "optional_args (GetPlaylist playlist_id market flds additional_types) =
     [(''market'', market), (''fields'', flds), (''additional_types'', additional_types)]"
| "optional_args (GetPlaylistItems playlist_id market flds limit offset additional_types) =
     [(''market'', market), (''fields'', flds), (''limit'', limit),
      (''offset'', offset), (''additional_types'', additional_types)]"
| "optional_args (SetVolume volume_percent device_id) = [(''device_id'', device_id)]"
| "optional_args (GetCurrentUsersPlaylist options) =
     (case options of
        None \<Rightarrow> [(''limit'', JUndefined), (''offset'', JUndefined)]
      | Some (limit, offset) \<Rightarrow> [(''limit'', limit), (''offset'', offset)])"
| "optional_args (Search q ty market limit offset) =
     [(''market'', market), (''limit'', limit), (''offset'', offset)]"
| "optional_args GetCurrentUserProfile = []"

subsection \<open>What the transport writes\<close>

text \<open>
  The client hands \<open>params\<close> and \<open>data\<close> to axios as objects: \<open>config_entries\<close> are
  their properties as the client wrote them. Writing them out is the transport's work,
  which the client's code does not contain: the default axios serializer skips a
  parameter whose value is \<open>null\<close> or \<open>undefined\<close>, and \<open>JSON.stringify\<close> leaves out
  a property whose value is \<open>undefined\<close>. A header of the config overrides the
  instance's default of that name.
\<close>

definition config_entries :: "request \<Rightarrow> (string \<times> js_value) list" where
  "config_entries config =
     (case rq_params config of None \<Rightarrow> [] | Some ps \<Rightarrow> ps)
     @ (case rq_data config of DataObject fs \<Rightarrow> fs | _ \<Rightarrow> [])"

definition outgoing_query :: "request \<Rightarrow> (string \<times> js_value) list" where
  "outgoing_query config =
     (case rq_params config of
        None \<Rightarrow> []
      | Some ps \<Rightarrow> filter (\<lambda>(k, v). v \<noteq> JUndefined \<and> v \<noteq> JNull) ps)"

definition outgoing_body :: "request \<Rightarrow> (string \<times> js_value) list" where
  "outgoing_body config =
     (case rq_data config of
        DataObject fs \<Rightarrow> filter (\<lambda>(k, v). v \<noteq> JUndefined) fs
      | _ \<Rightarrow> [])"

definition outgoing_header :: "sent \<Rightarrow> string \<Rightarrow> string option" where
  "outgoing_header w name =
     (case rq_headers (s_config w) of
        None \<Rightarrow> s_defaults w name
      | Some hs \<Rightarrow> (case map_of hs name of None \<Rightarrow> s_defaults w name | Some h \<Rightarrow> Some h))"

section \<open>Base64\<close>

text \<open>
  \<open>atob\<close> as the HTML standard defines it (forgiving-base64 decode): ASCII whitespace is
  removed; if the length is then a multiple of four, one or two \<open>=\<close> at the end are
  removed; a length of 1 modulo 4, or a character outside the base64 alphabet, throws
  the \<open>DOMException\<close> \<open>InvalidCharacterError\<close> (the message is the engine's own); the
  rest is decoded six bits a character, the spare bits of the last group dropped.
\<close>

definition invalid_character_error :: js_value where
  "invalid_character_error =
     JErr ''InvalidCharacterError'' ''The string to be decoded is not correctly encoded.''"

definition ascii_whitespace :: "char \<Rightarrow> bool" where
  "ascii_whitespace c = ((of_char c :: nat) \<in> {9, 10, 12, 13, 32})"

definition base64_value :: "char \<Rightarrow> nat option" where
  "base64_value c =
     (let n = (of_char c :: nat) in
        if 65 \<le> n \<and> n \<le> 90 then Some (n - 65)
        else if 97 \<le> n \<and> n \<le> 122 then Some (n - 71)
        else if 48 \<le> n \<and> n \<le> 57 then Some (n + 4)
        else if n = 43 then Some 62
        else if n = 47 then Some 63
        else None)"

definition strip_padding :: "string \<Rightarrow> string" where
  "strip_padding d =
     (if length d mod 4 = 0 \<and> d \<noteq> [] \<and> last d = CHR ''=''
      then (if butlast d \<noteq> [] \<and> last (butlast d) = CHR ''='' then butlast (butlast d)
            else butlast d)
      else d)"

fun decode_groups :: "nat list \<Rightarrow> string" where
  "decode_groups (a # b # c # d # rest) =
     (let n = a * 262144 + b * 4096 + c * 64 + d
      in [char_of (n div 65536), char_of (n div 256 mod 256), char_of (n mod 256)]
         @ decode_groups rest)"
| "decode_groups [a, b, c] =
     (let n = (a * 4096 + b * 64 + c) div 4 in [char_of (n div 256), char_of (n mod 256)])"
| "decode_groups [a, b] = [char_of ((a * 64 + b) div 16)]"
| "decode_groups [a] = []"
| "decode_groups [] = []"

definition atob :: "string \<Rightarrow> js_value + string" where
  "atob input =
     (let d = strip_padding (filter (\<lambda>c. \<not> ascii_whitespace c) input)
      in if length d mod 4 = 1 then Inl invalid_character_error
         else (case those (map base64_value d) of
                 None \<Rightarrow> Inl invalid_character_error
               | Some vs \<Rightarrow> Inr (decode_groups vs)))"

text \<open>
  The base64 encoding (RFC 4648, with padding), which is what the token endpoint's Basic
  scheme asks for and what \<open>btoa\<close> computes.
\<close>

definition base64_char :: "nat \<Rightarrow> char" where
  "base64_char n =
     (if n < 26 then char_of (65 + n)
      else if n < 52 then char_of (71 + n)
      else if n < 62 then char_of (n - 4)
      else if n = 62 then CHR ''+'' else CHR ''/'')"

fun encode_bytes :: "nat list \<Rightarrow> string" where
  "encode_bytes (a # b # c # rest) =
     [base64_char (a div 4), base64_char (a mod 4 * 16 + b div 16),
      base64_char (b mod 16 * 4 + c div 64), base64_char (c mod 64)] @ encode_bytes rest"
| "encode_bytes [a, b] =
     [base64_char (a div 4), base64_char (a mod 4 * 16 + b div 16),
      base64_char (b mod 16 * 4), CHR ''='']"
| "encode_bytes [a] = [base64_char (a div 4), base64_char (a mod 4 * 16), CHR ''='', CHR ''='']"
| "encode_bytes [] = []"

definition base64_encode :: "string \<Rightarrow> string" where
  "base64_encode s = encode_bytes (map of_char s)"

text \<open>The platform every current engine provides, over a given transport.\<close>

definition standard_platform :: "(sent \<Rightarrow> outcome) \<Rightarrow> platform" where
  "standard_platform transport = \<lparr>env_atob = atob, env_axios = transport\<rparr>"

section \<open>Sequences of calls and example platforms\<close>

text \<open>
  Endpoint calls made one after the other on the same client: the invocations of the
  transport they cause, in order.
\<close>

fun call_endpoints :: "platform \<Rightarrow> client \<Rightarrow> endpoint_call list \<Rightarrow> sent list" where
  "call_endpoints env c [] = []"
| "call_endpoints env c (ec # ecs) =
     (let r = call_endpoint env c ec in r_sent r @ call_endpoints env (r_client r) ecs)"

text \<open>The transport fails on an invocation: it throws, or its promise is rejected.\<close>

definition transport_fails :: "platform \<Rightarrow> sent \<Rightarrow> js_value \<Rightarrow> bool" where
  "transport_fails env w e = (env_axios env w = Throws e \<or> env_axios env w = Rejects e)"

text \<open>
  Platforms and clients for the examples. \<open>encoding_platform\<close> is a platform whose
  \<open>atob\<close> returns (it encodes, as \<open>btoa\<close> does); \<open>replying\<close> is a transport that
  answers every request with the body given; \<open>failing\<close> one that rejects every request.
\<close>

definition encoding_platform :: "(sent \<Rightarrow> outcome) \<Rightarrow> platform" where
  "encoding_platform transport = \<lparr>env_atob = (\<lambda>s. Inr (base64_encode s)), env_axios = transport\<rparr>"

definition replying :: "js_value \<Rightarrow> sent \<Rightarrow> outcome" where
  "replying body w = Resolves (JObj [(''status'', JNum 200), (''data'', body)])"

definition failing :: "js_value \<Rightarrow> sent \<Rightarrow> outcome" where
  "failing e w = Rejects e"

definition token_reply :: js_value where
  "token_reply =
     JObj [(''access_token'', JStr ''NEW''), (''token_type'', JStr ''Bearer''),
           (''expires_in'', JNum 3600), (''refresh_token'', JStr ''R2'')]"

definition network_error :: js_value where
  "network_error = JErr ''AxiosError'' ''Network Error''"

definition example_config :: client_config where
  "example_config =
     \<lparr>cfg_clientId = ''test'', cfg_clientSecret = Some ''s'', cfg_accessToken = ''OLD'',
      cfg_refreshToken = Some ''R1'', cfg_scope = None, cfg_redirectUri = ''test'',
      cfg_customAxiosInstance = None, cfg_autoRefreshToken = None\<rparr>"

definition example_client :: client where
  "example_client = new_client example_config"

definition bare_client :: client where
  "bare_client =
     new_client (example_config\<lparr>cfg_clientSecret := None, cfg_refreshToken := None\<rparr>)"

section \<open>Facts about the dispatcher\<close>

lemmas eval_char = char_of_def bit_0

lemma makeApiRequest_client: "r_client (makeApiRequest env c config) = c"
  by (simp add: makeApiRequest_def Let_def)

lemma makeApiRequest_sent: "r_sent (makeApiRequest env c config) = [wire c config]"
  by (simp add: makeApiRequest_def Let_def)

lemma makeApiRequest_resolves: "\<exists>v. r_outcome (makeApiRequest env c config) = Resolves v"
  by (simp add: makeApiRequest_def Let_def split: outcome.splits sum.splits)

lemma makeApiRequest_failure:
  "transport_fails env (wire c config) e \<Longrightarrow> r_outcome (makeApiRequest env c config) = Resolves e"
  by (auto simp add: makeApiRequest_def Let_def transport_fails_def)

lemma makeApiRequest_success:
  "env_axios env (wire c config) = Resolves reply \<Longrightarrow> get_prop reply ''data'' = Inr body \<Longrightarrow>
   r_outcome (makeApiRequest env c config) = Resolves body"
  by (simp add: makeApiRequest_def Let_def)

lemma get_prop_defined:
  "e \<noteq> JUndefined \<Longrightarrow> e \<noteq> JNull \<Longrightarrow> \<exists>v. get_prop e k = Inr v"
  by (cases e) simp_all

lemma get_prop_nullish:
  "e = JUndefined \<or> e = JNull \<Longrightarrow> get_prop e k = Inl (type_error e)"
  by auto

lemma call_endpoint_client: "r_client (call_endpoint env c ec) = c"
  by (simp add: call_endpoint_def makeApiRequest_client)

lemma call_endpoint_sent: "r_sent (call_endpoint env c ec) = [wire c (endpoint_config ec)]"
  by (simp add: call_endpoint_def makeApiRequest_sent)

lemma endpoint_config_headers: "rq_headers (endpoint_config ec) = None"
  by (cases ec) (simp_all add: api_request_def)

lemma call_endpoints_eq:
  "call_endpoints env c ecs = map (\<lambda>ec. wire c (endpoint_config ec)) ecs"
  by (induction ecs) (simp_all add: Let_def call_endpoint_client call_endpoint_sent)

lemma endpoint_header:
  "outgoing_header (wire c (endpoint_config ec)) name = axios_headers c name"
  by (simp add: outgoing_header_def wire_def endpoint_config_headers)

lemma call_endpoints_header:
  "w \<in> set (call_endpoints env c ecs) \<Longrightarrow> outgoing_header w name = axios_headers c name"
  by (auto simp add: call_endpoints_eq endpoint_header)

text \<open>The token a client holds is the one its default header carries.\<close>

lemma stored_tokens:
  "accessToken (setRefreshToken (setAccessToken c a) r) = a"
  "refreshToken (setRefreshToken (setAccessToken c a) r) = r"
  "axios_headers (setRefreshToken (setAccessToken c a) r) ''Authorization''
     = Some (''Bearer '' @ to_string a)"
  by (simp_all add: setRefreshToken_def setAccessToken_def)

lemma new_client_header:
  "axios_headers (new_client config) ''Authorization''
     = Some (''Bearer '' @ to_string (accessToken (new_client config)))"
  by (simp add: new_client_def setAccessToken_def)

section \<open>Facts about the token exchange\<close>

lemma refreshAccessToken_client: "r_client (refreshAccessToken env c) = c"
  by (simp add: refreshAccessToken_def makeApiRequest_client split: sum.splits)

lemma requestAccessToken_invoked:
  "r_sent (requestAccessToken env c code) = [w] \<Longrightarrow>
   secret_set c \<and> (\<exists>decoded. env_atob env (credentials c) = Inr decoded
                     \<and> w = wire c (request_token_config c decoded code))"
  by (auto simp add: requestAccessToken_def Let_def makeApiRequest_sent
      split: if_splits sum.splits outcome.splits)

lemma refreshAccessToken_invoked:
  "r_sent (refreshAccessToken env c) = [w] \<Longrightarrow>
   secret_set c \<and> truthy (refreshToken c)
   \<and> (\<exists>decoded. env_atob env (credentials c) = Inr decoded
          \<and> w = wire c (refresh_token_config c decoded))"
  by (auto simp add: refreshAccessToken_def makeApiRequest_sent split: if_splits sum.splits)

lemma requestAccessToken_reply:
  assumes "secret_set c"
    and "env_atob env (credentials c) = Inr decoded"
    and "r_outcome (makeApiRequest env c (request_token_config c decoded code)) = Resolves response"
    and "get_prop response ''access_token'' = Inr access"
    and "get_prop response ''refresh_token'' = Inr refresh"
  shows "requestAccessToken env c code =
           \<lparr>r_outcome = Resolves response,
            r_client = setRefreshToken (setAccessToken c access) refresh,
            r_sent = [wire c (request_token_config c decoded code)]\<rparr>"
  using assms
  by (simp add: requestAccessToken_def Let_def makeApiRequest_client makeApiRequest_sent)

lemma requestAccessToken_null_reply:
  assumes "secret_set c"
    and "env_atob env (credentials c) = Inr decoded"
    and "r_outcome (makeApiRequest env c (request_token_config c decoded code)) = Resolves response"
    and "response = JUndefined \<or> response = JNull"
  shows "requestAccessToken env c code =
           \<lparr>r_outcome = Resolves (type_error response),
            r_client = c,
            r_sent = [wire c (request_token_config c decoded code)]\<rparr>"
  using assms
  by (auto simp add: requestAccessToken_def Let_def makeApiRequest_client makeApiRequest_sent)

subsection \<open>The standard \<open>atob\<close> on the client's credentials\<close>

lemma colon_butlast:
  "CHR '':'' \<in> set xs \<Longrightarrow> xs \<noteq> [] \<Longrightarrow> last xs = CHR ''='' \<Longrightarrow> CHR '':'' \<in> set (butlast xs)"
proof -
  assume a: "CHR '':'' \<in> set xs" "xs \<noteq> []" "last xs = CHR ''=''"
  from a(2) have "xs = butlast xs @ [last xs]" by simp
  then have "set xs = set (butlast xs) \<union> {last xs}"
    by (metis Un_insert_right list.set(1) list.set(2) set_append sup_bot.right_neutral)
  with a(1) a(3) show ?thesis by auto
qed

lemma colon_strip_padding: "CHR '':'' \<in> set d \<Longrightarrow> CHR '':'' \<in> set (strip_padding d)"
  by (simp add: strip_padding_def colon_butlast)

lemma those_map_None: "x \<in> set xs \<Longrightarrow> f x = None \<Longrightarrow> those (map f xs) = None"
  by (induction xs) (auto split: option.splits)

lemma base64_value_colon: "base64_value CHR '':'' = None"
  by (simp add: base64_value_def)

text \<open>A colon is not a base64 character: \<open>atob\<close> throws on every string that has one.\<close>

lemma atob_colon: "CHR '':'' \<in> set s \<Longrightarrow> atob s = Inl invalid_character_error"
proof -
  assume a: "CHR '':'' \<in> set s"
  have "\<not> ascii_whitespace CHR '':''" by (simp add: ascii_whitespace_def)
  with a have "CHR '':'' \<in> set (filter (\<lambda>c. \<not> ascii_whitespace c) s)" by simp
  then have "CHR '':'' \<in> set (strip_padding (filter (\<lambda>c. \<not> ascii_whitespace c) s))"
    by (rule colon_strip_padding)
  then have "those (map base64_value (strip_padding (filter (\<lambda>c. \<not> ascii_whitespace c) s))) = None"
    by (rule those_map_None) (rule base64_value_colon)
  then show ?thesis by (simp add: atob_def Let_def)
qed

lemma atob_credentials: "atob (credentials c) = Inl invalid_character_error"
  by (rule atob_colon) (simp add: credentials_def)

text \<open>
  So with the standard \<open>atob\<close> neither token operation reaches the transport, whatever
  the client's id and secret are.
\<close>

lemma standard_requestAccessToken:
  "secret_set c \<Longrightarrow>
   requestAccessToken (standard_platform t) c code =
     \<lparr>r_outcome = Resolves invalid_character_error, r_client = c, r_sent = []\<rparr>"
  by (simp add: requestAccessToken_def standard_platform_def atob_credentials)

lemma standard_refreshAccessToken:
  "secret_set c \<Longrightarrow> truthy (refreshToken c) \<Longrightarrow>
   refreshAccessToken (standard_platform t) c =
     \<lparr>r_outcome = Throws invalid_character_error, r_client = c, r_sent = []\<rparr>"
  by (simp add: refreshAccessToken_def standard_platform_def atob_credentials)

subsection \<open>The example clients and platforms\<close>

lemma example_client_fields:
  "clientId example_client = ''test''"
  "clientSecret example_client = Some ''s''"
  "accessToken example_client = JStr ''OLD''"
  "refreshToken example_client = JStr ''R1''"
  "redirectUri example_client = ''test''"
  "axios_headers example_client ''Authorization'' = Some ''Bearer OLD''"
  by (simp_all add: example_client_def example_config_def new_client_def setAccessToken_def
      opt_value_def)

lemma example_client_secret_set: "secret_set example_client"
  by (simp add: secret_set_def example_client_fields opt_value_def)

lemma bare_client_fields:
  "clientSecret bare_client = None"
  "refreshToken bare_client = JUndefined"
  by (simp_all add: bare_client_def example_config_def new_client_def setAccessToken_def
      opt_value_def)

lemma example_credentials: "credentials example_client = ''test:s''"
  by (simp add: credentials_def example_client_fields opt_value_def)

lemma example_encoded: "base64_encode ''test:s'' = ''dGVzdDpz''"
  by (simp add: base64_encode_def base64_char_def eval_char)

lemma encoding_platform_sel:
  "env_atob (encoding_platform t) s = Inr (base64_encode s)"
  "env_axios (encoding_platform t) = t"
  by (simp_all add: encoding_platform_def)

lemma failing_fails: "transport_fails (encoding_platform (failing e)) w e"
  by (simp add: transport_fails_def encoding_platform_sel failing_def)

lemma example_request_sent:
  "r_sent (requestAccessToken (encoding_platform t) example_client code)
     = [wire example_client
          (request_token_config example_client (base64_encode (credentials example_client)) code)]"
  by (simp add: requestAccessToken_def Let_def example_client_secret_set encoding_platform_sel
      makeApiRequest_sent split: outcome.splits sum.splits)

lemma example_refresh_sent:
  "r_sent (refreshAccessToken (encoding_platform t) example_client)
     = [wire example_client
          (refresh_token_config example_client (base64_encode (credentials example_client)))]"
  by (simp add: refreshAccessToken_def example_client_secret_set example_client_fields
      encoding_platform_sel makeApiRequest_sent)

section \<open>Refreshing the access token\<close>

text \<open>
  Claim C1 says that a call of \<open>refreshAccessToken\<close> whose transport reply succeeds
  stores the reply's \<open>access_token\<close> (and its \<open>refresh_token\<close>, when there is one).
  The code returns the promise of \<open>_makeApiRequest\<close> and stores nothing
  (\<open>refreshAccessToken_client\<close>: on every platform the client afterwards is the client
  before), while \<open>requestAccessToken\<close> does store both tokens. Here the transport
  is invoked once and answers with the tokens NEW and R2; the call resolves with that
  reply, and the client still holds OLD and R1.
\<close>

theorem refreshAccessToken_stores_nothing:
  "r_outcome (refreshAccessToken (encoding_platform (replying token_reply)) example_client)
     = Resolves token_reply
   \<and> length (r_sent (refreshAccessToken (encoding_platform (replying token_reply)) example_client)) = 1
   \<and> getAccessToken (r_client (refreshAccessToken (encoding_platform (replying token_reply)) example_client))
     = JStr ''OLD''
   \<and> getRefreshToken (r_client (refreshAccessToken (encoding_platform (replying token_reply)) example_client))
     = JStr ''R1''
   \<and> get_prop token_reply ''access_token'' = Inr (JStr ''NEW'')
   \<and> get_prop token_reply ''refresh_token'' = Inr (JStr ''R2'')"
  by (simp add: refreshAccessToken_def example_client_secret_set example_client_fields
      encoding_platform_def makeApiRequest_def replying_def token_reply_def
      getAccessToken_def getRefreshToken_def)

section \<open>The Basic authorization header\<close>

text \<open>
  Claim C2 says that both token operations send their POST with the header
  \<open>Authorization: Basic\<close> followed by the base64 encoding of \<open>clientId:clientSecret\<close>.
  The code builds the header with \<open>atob\<close>, which decodes; the encoder is \<open>btoa\<close>.
  The string it is given always holds a colon, so the standard \<open>atob\<close> throws
  (\<open>atob_credentials\<close>) and no request is sent. For the client with id test and
  secret s, on a transport that would answer every request: \<open>requestAccessToken\<close>
  resolves with the \<open>InvalidCharacterError\<close>, \<open>refreshAccessToken\<close> throws it, and the
  transport is not invoked; the header the claim names would be \<open>Basic dGVzdDpz\<close>.
\<close>

theorem token_requests_never_sent:
  "requestAccessToken (standard_platform (replying token_reply)) example_client ''code''
     = \<lparr>r_outcome = Resolves invalid_character_error, r_client = example_client, r_sent = []\<rparr>
   \<and> refreshAccessToken (standard_platform (replying token_reply)) example_client
     = \<lparr>r_outcome = Throws invalid_character_error, r_client = example_client, r_sent = []\<rparr>
   \<and> atob (credentials example_client) = Inl invalid_character_error
   \<and> base64_encode (credentials example_client) = ''dGVzdDpz''"
proof (intro conjI)
  show "requestAccessToken (standard_platform (replying token_reply)) example_client ''code''
     = \<lparr>r_outcome = Resolves invalid_character_error, r_client = example_client, r_sent = []\<rparr>"
    by (rule standard_requestAccessToken) (rule example_client_secret_set)
  show "refreshAccessToken (standard_platform (replying token_reply)) example_client
     = \<lparr>r_outcome = Throws invalid_character_error, r_client = example_client, r_sent = []\<rparr>"
    by (rule standard_refreshAccessToken)
       (simp_all add: example_client_secret_set example_client_fields)
  show "atob (credentials example_client) = Inl invalid_character_error"
    by (rule atob_credentials)
  show "base64_encode (credentials example_client) = ''dGVzdDpz''"
    by (simp add: example_credentials example_encoded)
qed

section \<open>Transport errors are returned, not thrown\<close>

text \<open>
  Claim C3: an error the transport throws or rejects with is caught and becomes the value
  the calling method resolves with. For every platform and client: an endpoint method
  always resolves, and resolves with the transport's error when the transport fails;
  \<open>refreshAccessToken\<close>, once it has invoked the transport, resolves with the error;
  so does \<open>requestAccessToken\<close> for an error object, that is any value but \<open>null\<close> and
  \<open>undefined\<close>. (On these two, reading \<open>access_token\<close> from the caught value throws a
  \<open>TypeError\<close>, which the method's own \<open>catch\<close> returns: it still resolves.) Past its
  guard \<open>requestAccessToken\<close> never throws or rejects.
\<close>

theorem transport_error_is_resolved_value:
  "(\<forall>ec. \<exists>v. r_outcome (call_endpoint env c ec) = Resolves v)
   \<and> (\<forall>ec w e. r_sent (call_endpoint env c ec) = [w] \<and> transport_fails env w e
         \<longrightarrow> r_outcome (call_endpoint env c ec) = Resolves e)
   \<and> (\<forall>w e. r_sent (refreshAccessToken env c) = [w] \<and> transport_fails env w e
         \<longrightarrow> r_outcome (refreshAccessToken env c) = Resolves e)
   \<and> (\<forall>code w e. r_sent (requestAccessToken env c code) = [w] \<and> transport_fails env w e
          \<and> e \<noteq> JUndefined \<and> e \<noteq> JNull
         \<longrightarrow> r_outcome (requestAccessToken env c code) = Resolves e)
   \<and> (\<forall>code w e. r_sent (requestAccessToken env c code) = [w] \<and> transport_fails env w e
          \<and> (e = JUndefined \<or> e = JNull)
         \<longrightarrow> r_outcome (requestAccessToken env c code) = Resolves (type_error e))
   \<and> (\<forall>code. secret_set c \<longrightarrow> (\<exists>v. r_outcome (requestAccessToken env c code) = Resolves v))"
proof (intro conjI allI impI)
  fix ec
  show "\<exists>v. r_outcome (call_endpoint env c ec) = Resolves v"
    by (simp add: call_endpoint_def makeApiRequest_resolves)
next
  fix ec w e
  assume "r_sent (call_endpoint env c ec) = [w] \<and> transport_fails env w e"
  then have "transport_fails env (wire c (endpoint_config ec)) e"
    by (simp add: call_endpoint_sent)
  then show "r_outcome (call_endpoint env c ec) = Resolves e"
    by (simp add: call_endpoint_def makeApiRequest_failure)
next
  fix w e
  assume a: "r_sent (refreshAccessToken env c) = [w] \<and> transport_fails env w e"
  then obtain decoded where d: "secret_set c" "truthy (refreshToken c)"
      "env_atob env (credentials c) = Inr decoded" "w = wire c (refresh_token_config c decoded)"
    using refreshAccessToken_invoked by blast
  with a show "r_outcome (refreshAccessToken env c) = Resolves e"
    by (simp add: refreshAccessToken_def makeApiRequest_failure)
next
  fix code w e
  assume a: "r_sent (requestAccessToken env c code) = [w] \<and> transport_fails env w e
          \<and> e \<noteq> JUndefined \<and> e \<noteq> JNull"
  then obtain decoded where d: "secret_set c"
      "env_atob env (credentials c) = Inr decoded" "w = wire c (request_token_config c decoded code)"
    using requestAccessToken_invoked by blast
  from a obtain access refresh where
    p: "get_prop e ''access_token'' = Inr access" "get_prop e ''refresh_token'' = Inr refresh"
    using get_prop_defined by blast
  from a d have "r_outcome (makeApiRequest env c (request_token_config c decoded code)) = Resolves e"
    by (simp add: makeApiRequest_failure)
  with d p show "r_outcome (requestAccessToken env c code) = Resolves e"
    by (simp add: requestAccessToken_reply)
next
  fix code w e
  assume a: "r_sent (requestAccessToken env c code) = [w] \<and> transport_fails env w e
          \<and> (e = JUndefined \<or> e = JNull)"
  then obtain decoded where d: "secret_set c"
      "env_atob env (credentials c) = Inr decoded" "w = wire c (request_token_config c decoded code)"
    using requestAccessToken_invoked by blast
  from a d have "r_outcome (makeApiRequest env c (request_token_config c decoded code)) = Resolves e"
    by (simp add: makeApiRequest_failure)
  with a d show "r_outcome (requestAccessToken env c code) = Resolves (type_error e)"
    by (simp add: requestAccessToken_null_reply)
next
  fix code
  assume "secret_set c"
  then show "\<exists>v. r_outcome (requestAccessToken env c code) = Resolves v"
    by (simp add: requestAccessToken_def Let_def split: sum.splits outcome.splits)
qed

text \<open>
  The example client on a platform whose transport rejects every request with a network
  error: a profile request, a refresh and a code exchange each resolve with that error.
\<close>

theorem transport_error_witness:
  "transport_fails (encoding_platform (failing network_error))
     (wire example_client (endpoint_config GetCurrentUserProfile)) network_error
   \<and> r_outcome (call_endpoint (encoding_platform (failing network_error)) example_client
        GetCurrentUserProfile) = Resolves network_error
   \<and> length (r_sent (refreshAccessToken (encoding_platform (failing network_error)) example_client)) = 1
   \<and> r_outcome (refreshAccessToken (encoding_platform (failing network_error)) example_client)
        = Resolves network_error
   \<and> length (r_sent (requestAccessToken (encoding_platform (failing network_error)) example_client ''code'')) = 1
   \<and> r_outcome (requestAccessToken (encoding_platform (failing network_error)) example_client ''code'')
        = Resolves network_error"
proof -
  note T = transport_error_is_resolved_value
             [of "encoding_platform (failing network_error)" example_client]
  note T2 = T [THEN conjunct2, THEN conjunct1, rule_format]
  note T3 = T [THEN conjunct2, THEN conjunct2, THEN conjunct1, rule_format]
  note T4 = T [THEN conjunct2, THEN conjunct2, THEN conjunct2, THEN conjunct1, rule_format]
  have n: "network_error \<noteq> JUndefined" "network_error \<noteq> JNull"
    by (simp_all add: network_error_def)
  have 1: "r_outcome (call_endpoint (encoding_platform (failing network_error)) example_client
        GetCurrentUserProfile) = Resolves network_error"
    by (rule T2) (simp add: call_endpoint_sent failing_fails)
  have 2: "r_outcome (refreshAccessToken (encoding_platform (failing network_error)) example_client)
        = Resolves network_error"
    by (rule T3) (simp add: example_refresh_sent failing_fails)
  have 3: "r_outcome (requestAccessToken (encoding_platform (failing network_error)) example_client ''code'')
        = Resolves network_error"
    by (rule T4) (simp add: example_request_sent failing_fails n)
  show ?thesis
    using 1 2 3 failing_fails by (simp add: example_refresh_sent example_request_sent)
qed

section \<open>Missing credentials\<close>

text \<open>
  Claim C4 says that \<open>requestAccessToken\<close> without a client secret, and
  \<open>refreshAccessToken\<close> without a client secret or a refresh token, throw synchronously
  before any network attempt. \<open>requestAccessToken\<close> is an \<open>async\<close> function: the error
  of its guard does not reach the caller as an exception, it rejects the promise the call
  returns. For the client without a secret the call ends as \<open>Rejects\<close>, not as \<open>Throws\<close>.
\<close>

theorem requestAccessToken_rejects_not_throws:
  "r_outcome (requestAccessToken (standard_platform (replying token_reply)) bare_client ''code'')
     = Rejects (JErr ''Error'' ''Client secret must be set to request access token.'')
   \<and> r_outcome (requestAccessToken (standard_platform (replying token_reply)) bare_client ''code'')
     \<noteq> Throws (JErr ''Error'' ''Client secret must be set to request access token.'')"
  by (simp add: requestAccessToken_def secret_set_def bare_client_fields opt_value_def)

text \<open>
  Claim C4 as amended: on every platform, \<open>requestAccessToken\<close> without a client secret
  (unset or empty) returns a promise rejected with the error; \<open>refreshAccessToken\<close>
  without a client secret, or with one and without a refresh token, throws its error
  synchronously. In each case the transport is invoked zero times and the client is
  unchanged.
\<close>

theorem missing_credentials_fail_before_transport:
  "(\<not> secret_set c \<longrightarrow>
      requestAccessToken env c code =
        \<lparr>r_outcome = Rejects (JErr ''Error'' ''Client secret must be set to request access token.''),
         r_client = c, r_sent = []\<rparr>)
   \<and> (\<not> secret_set c \<longrightarrow>
      refreshAccessToken env c =
        \<lparr>r_outcome = Throws (JErr ''Error'' ''Client secret must be set to refresh token''),
         r_client = c, r_sent = []\<rparr>)
   \<and> (secret_set c \<and> \<not> truthy (refreshToken c) \<longrightarrow>
      refreshAccessToken env c =
        \<lparr>r_outcome = Throws (JErr ''Error'' ''Refresh token is not set''),
         r_client = c, r_sent = []\<rparr>)"
  by (simp add: requestAccessToken_def refreshAccessToken_def)

theorem missing_credentials_witness:
  "\<not> secret_set bare_client
   \<and> requestAccessToken (standard_platform (replying token_reply)) bare_client ''code'' =
        \<lparr>r_outcome = Rejects (JErr ''Error'' ''Client secret must be set to request access token.''),
         r_client = bare_client, r_sent = []\<rparr>
   \<and> refreshAccessToken (standard_platform (replying token_reply)) bare_client =
        \<lparr>r_outcome = Throws (JErr ''Error'' ''Client secret must be set to refresh token''),
         r_client = bare_client, r_sent = []\<rparr>
   \<and> secret_set (setRefreshToken example_client JUndefined)
   \<and> \<not> truthy (refreshToken (setRefreshToken example_client JUndefined))
   \<and> refreshAccessToken (standard_platform (replying token_reply))
          (setRefreshToken example_client JUndefined) =
        \<lparr>r_outcome = Throws (JErr ''Error'' ''Refresh token is not set''),
         r_client = setRefreshToken example_client JUndefined, r_sent = []\<rparr>"
proof -
  have a: "\<not> secret_set bare_client"
    by (simp add: secret_set_def bare_client_fields opt_value_def)
  have b: "secret_set (setRefreshToken example_client JUndefined)"
    using example_client_secret_set by (simp add: secret_set_def setRefreshToken_def)
  have c: "\<not> truthy (refreshToken (setRefreshToken example_client JUndefined))"
    by (simp add: setRefreshToken_def)
  show ?thesis
    using a b c
      missing_credentials_fail_before_transport
        [of bare_client "standard_platform (replying token_reply)" "''code''"]
      missing_credentials_fail_before_transport
        [of "setRefreshToken example_client JUndefined" "standard_platform (replying token_reply)"]
    by simp
qed

section \<open>A successful code exchange\<close>

text \<open>
  Claim C5: a call of \<open>requestAccessToken\<close> whose transport reply succeeds stores the
  reply's access and refresh token, returns the whole token response, and every later
  endpoint call carries the new access token in its bearer \<open>Authorization\<close> header;
  \<open>getAccessToken\<close> and \<open>getRefreshToken\<close> return the new values. Here \<open>w\<close> is the
  invocation of the transport the call made, \<open>reply\<close> what the transport resolved with,
  \<open>body\<close> its \<open>data\<close>, and \<open>access\<close>, \<open>refresh\<close> the two properties read from the
  body (a missing \<open>refresh_token\<close> reads as \<open>undefined\<close>). The endpoint calls are any
  list of calls made afterwards on the client the exchange left: each reaches the
  transport, with the header \<open>Bearer\<close> and the new token.
\<close>

theorem requestAccessToken_success:
  assumes "r_sent (requestAccessToken env c code) = [w]"
    and "env_axios env w = Resolves reply"
    and "get_prop reply ''data'' = Inr body"
    and "get_prop body ''access_token'' = Inr access"
    and "get_prop body ''refresh_token'' = Inr refresh"
  shows "r_outcome (requestAccessToken env c code) = Resolves body
       \<and> getAccessToken (r_client (requestAccessToken env c code)) = access
       \<and> getRefreshToken (r_client (requestAccessToken env c code)) = refresh
       \<and> (\<forall>ecs. length (call_endpoints env (r_client (requestAccessToken env c code)) ecs)
                = length ecs)
       \<and> (\<forall>ecs. \<forall>x \<in> set (call_endpoints env (r_client (requestAccessToken env c code)) ecs).
             outgoing_header x ''Authorization'' = Some (''Bearer '' @ to_string access))"
proof -
  from assms(1) obtain decoded where d: "secret_set c" "env_atob env (credentials c) = Inr decoded"
    "w = wire c (request_token_config c decoded code)"
    using requestAccessToken_invoked by blast
  have "r_outcome (makeApiRequest env c (request_token_config c decoded code)) = Resolves body"
    using assms(2,3) unfolding d(3) by (rule makeApiRequest_success)
  then have run: "requestAccessToken env c code =
           \<lparr>r_outcome = Resolves body,
            r_client = setRefreshToken (setAccessToken c access) refresh,
            r_sent = [wire c (request_token_config c decoded code)]\<rparr>"
    using d(1,2) assms(4,5) by (simp add: requestAccessToken_reply)
  show ?thesis
    by (simp add: run getAccessToken_def getRefreshToken_def stored_tokens
        call_endpoints_header) (simp add: call_endpoints_eq)
qed

text \<open>
  The example client, holding OLD and R1, exchanges a code on a platform whose transport
  answers with the tokens NEW and R2; a profile request and a search follow.
\<close>

theorem requestAccessToken_success_witness:
  "length (r_sent (requestAccessToken (encoding_platform (replying token_reply)) example_client ''code'')) = 1
   \<and> r_outcome (requestAccessToken (encoding_platform (replying token_reply)) example_client ''code'')
        = Resolves token_reply
   \<and> getAccessToken (r_client
        (requestAccessToken (encoding_platform (replying token_reply)) example_client ''code''))
        = JStr ''NEW''
   \<and> getRefreshToken (r_client
        (requestAccessToken (encoding_platform (replying token_reply)) example_client ''code''))
        = JStr ''R2''
   \<and> map (\<lambda>x. outgoing_header x ''Authorization'')
        (call_endpoints (encoding_platform (replying token_reply))
           (r_client (requestAccessToken (encoding_platform (replying token_reply)) example_client ''code''))
           [GetCurrentUserProfile, Search ''the killers'' ''artist'' JUndefined JUndefined JUndefined])
        = [Some ''Bearer NEW'', Some ''Bearer NEW'']"
proof -
  let ?P = "encoding_platform (replying token_reply)"
  let ?c = "r_client (requestAccessToken ?P example_client ''code'')"
  let ?ecs = "[GetCurrentUserProfile, Search ''the killers'' ''artist'' JUndefined JUndefined JUndefined]"
  have T: "r_outcome (requestAccessToken ?P example_client ''code'') = Resolves token_reply
       \<and> getAccessToken ?c = JStr ''NEW''
       \<and> getRefreshToken ?c = JStr ''R2''
       \<and> (\<forall>ecs. length (call_endpoints ?P ?c ecs) = length ecs)
       \<and> (\<forall>ecs. \<forall>x \<in> set (call_endpoints ?P ?c ecs).
             outgoing_header x ''Authorization'' = Some (''Bearer '' @ to_string (JStr ''NEW'')))"
    by (rule requestAccessToken_success
          [where reply = "JObj [(''status'', JNum 200), (''data'', token_reply)]"])
       (simp_all add: example_request_sent encoding_platform_sel replying_def token_reply_def)
  from T have "length (call_endpoints ?P ?c ?ecs) = length ?ecs" by blast
  then obtain a b where ab: "call_endpoints ?P ?c ?ecs = [a, b]"
    by (auto simp del: call_endpoints.simps simp add: length_Suc_conv)
  from T have "\<forall>x \<in> set (call_endpoints ?P ?c ?ecs).
             outgoing_header x ''Authorization'' = Some (''Bearer '' @ to_string (JStr ''NEW''))"
    by blast
  with ab have "map (\<lambda>x. outgoing_header x ''Authorization'') (call_endpoints ?P ?c ?ecs)
        = [Some ''Bearer NEW'', Some ''Bearer NEW'']" by (simp del: call_endpoints.simps)
  with T show ?thesis by (simp del: call_endpoints.simps add: example_request_sent)
qed

section \<open>A failed code exchange\<close>

text \<open>
  Claim C6: when the transport call inside \<open>requestAccessToken\<close> fails, the client is
  not left as it was. The caught error \<open>e\<close> is used as the token response; an error
  object has no \<open>access_token\<close> and no \<open>refresh_token\<close>, both read as \<open>undefined\<close>,
  and these are stored: the call resolves with the error, both stored tokens are
  \<open>undefined\<close>, a client that held an access token has changed, and every endpoint call
  made afterwards carries the header \<open>Bearer undefined\<close>.
\<close>

theorem requestAccessToken_failure_overwrites:
  assumes "r_sent (requestAccessToken env c code) = [w]"
    and "transport_fails env w e"
    and "get_prop e ''access_token'' = Inr JUndefined"
    and "get_prop e ''refresh_token'' = Inr JUndefined"
  shows "r_outcome (requestAccessToken env c code) = Resolves e
       \<and> getAccessToken (r_client (requestAccessToken env c code)) = JUndefined
       \<and> getRefreshToken (r_client (requestAccessToken env c code)) = JUndefined
       \<and> (accessToken c \<noteq> JUndefined \<longrightarrow> r_client (requestAccessToken env c code) \<noteq> c)
       \<and> (\<forall>ecs. \<forall>x \<in> set (call_endpoints env (r_client (requestAccessToken env c code)) ecs).
             outgoing_header x ''Authorization'' = Some ''Bearer undefined'')"
proof -
  from assms(1) obtain decoded where d: "secret_set c" "env_atob env (credentials c) = Inr decoded"
    "w = wire c (request_token_config c decoded code)"
    using requestAccessToken_invoked by blast
  have "r_outcome (makeApiRequest env c (request_token_config c decoded code)) = Resolves e"
    using assms(2) unfolding d(3) by (rule makeApiRequest_failure)
  then have run: "requestAccessToken env c code =
           \<lparr>r_outcome = Resolves e,
            r_client = setRefreshToken (setAccessToken c JUndefined) JUndefined,
            r_sent = [wire c (request_token_config c decoded code)]\<rparr>"
    using d(1,2) assms(3,4) by (simp add: requestAccessToken_reply)
  have changed: "accessToken c \<noteq> JUndefined \<Longrightarrow>
                 setRefreshToken (setAccessToken c JUndefined) JUndefined \<noteq> c"
  proof
    assume a: "accessToken c \<noteq> JUndefined"
      and b: "setRefreshToken (setAccessToken c JUndefined) JUndefined = c"
    have "accessToken (setRefreshToken (setAccessToken c JUndefined) JUndefined) = JUndefined"
      by (rule stored_tokens)
    with a b show False by simp
  qed
  show ?thesis
    by (simp add: run getAccessToken_def getRefreshToken_def stored_tokens
        call_endpoints_header changed)
qed

text \<open>
  The example client, holding OLD, exchanges a code on a platform whose transport rejects
  with a network error; two endpoint calls follow.
\<close>

theorem requestAccessToken_failure_witness:
  "transport_fails (encoding_platform (failing network_error))
        (wire example_client
           (request_token_config example_client (base64_encode (credentials example_client)) ''code''))
        network_error
   \<and> r_outcome (requestAccessToken (encoding_platform (failing network_error)) example_client ''code'')
        = Resolves network_error
   \<and> getAccessToken example_client = JStr ''OLD''
   \<and> getAccessToken (r_client
        (requestAccessToken (encoding_platform (failing network_error)) example_client ''code''))
        = JUndefined
   \<and> getRefreshToken (r_client
        (requestAccessToken (encoding_platform (failing network_error)) example_client ''code''))
        = JUndefined
   \<and> r_client (requestAccessToken (encoding_platform (failing network_error)) example_client ''code'')
        \<noteq> example_client
   \<and> list_all (\<lambda>x. outgoing_header x ''Authorization'' = Some ''Bearer undefined'')
        (call_endpoints (encoding_platform (failing network_error))
           (r_client (requestAccessToken (encoding_platform (failing network_error)) example_client ''code''))
           [GetCurrentUserProfile, GetPlaybackState])"
proof -
  let ?P = "encoding_platform (failing network_error)"
  have T: "r_outcome (requestAccessToken ?P example_client ''code'') = Resolves network_error
       \<and> getAccessToken (r_client (requestAccessToken ?P example_client ''code'')) = JUndefined
       \<and> getRefreshToken (r_client (requestAccessToken ?P example_client ''code'')) = JUndefined
       \<and> (accessToken example_client \<noteq> JUndefined
            \<longrightarrow> r_client (requestAccessToken ?P example_client ''code'') \<noteq> example_client)
       \<and> (\<forall>ecs. \<forall>x \<in> set (call_endpoints ?P (r_client (requestAccessToken ?P example_client ''code'')) ecs).
             outgoing_header x ''Authorization'' = Some ''Bearer undefined'')"
    by (rule requestAccessToken_failure_overwrites [OF example_request_sent])
       (simp_all add: failing_fails network_error_def)
  moreover from T have "list_all (\<lambda>x. outgoing_header x ''Authorization'' = Some ''Bearer undefined'')
        (call_endpoints ?P (r_client (requestAccessToken ?P example_client ''code''))
           [GetCurrentUserProfile, GetPlaybackState])"
    unfolding list_all_iff by blast
  ultimately show ?thesis
    by (simp del: call_endpoints.simps add: failing_fails example_client_fields getAccessToken_def)
qed

section \<open>Facts about the authorize URL\<close>

subsection \<open>Splitting what was joined\<close>

lemma split_on_free: "sep \<notin> set p \<Longrightarrow> split_on sep p = [p]"
  by (induction p) auto

lemma split_on_append:
  "sep \<notin> set p \<Longrightarrow> split_on sep (p @ sep # rest) = p # split_on sep rest"
  by (induction p) auto

lemma join_with_single: "join_with sep [y] = y"
  by (simp add: join_with_def)

lemma join_with_Cons: "join_with sep (y # z # zs) = y @ sep @ join_with sep (z # zs)"
  by (simp add: join_with_def)

lemma join_with_nonempty: "y \<noteq> [] \<Longrightarrow> join_with sep (y # ys) \<noteq> []"
  by (simp add: join_with_def)

lemma split_on_join:
  "\<forall>p \<in> set (y # ys). sep \<notin> set p \<Longrightarrow> split_on sep (join_with [sep] (y # ys)) = y # ys"
proof (induction ys arbitrary: y)
  case Nil
  then show ?case by (simp add: join_with_single split_on_free)
next
  case (Cons z zs)
  have "split_on sep (y @ sep # join_with [sep] (z # zs))
        = y # split_on sep (join_with [sep] (z # zs))"
    using Cons.prems by (intro split_on_append) simp
  also have "split_on sep (join_with [sep] (z # zs)) = z # zs"
    using Cons.prems by (intro Cons.IH) simp
  finally show ?case by (simp add: join_with_Cons)
qed

subsection \<open>The serializer writes no delimiter of its own into a key or a value\<close>

lemma hex_digit_code:
  "n < 16 \<Longrightarrow> (of_char (hex_digit n) :: nat) = (if n < 10 then 48 + n else 55 + n)"
  by (simp add: hex_digit_def)

lemma of_char_div16: "(of_char c :: nat) div 16 < 16"
proof -
  have "(of_char c :: nat) < 256" by simp
  then show ?thesis by arith
qed

lemma query_delimiter_code:
  "query_delimiter x \<Longrightarrow>
   (of_char x :: nat) = 38 \<or> (of_char x :: nat) = 61 \<or> (of_char x :: nat) = 63"
  by (auto simp add: query_delimiter_def)

lemma urlencode_byte_chars: "x \<in> set (urlencode_byte c) \<Longrightarrow> \<not> query_delimiter x"
proof
  assume x: "x \<in> set (urlencode_byte c)" and d: "query_delimiter x"
  let ?n = "of_char x :: nat"
  from d have n: "?n = 38 \<or> ?n = 61 \<or> ?n = 63" by (rule query_delimiter_code)
  consider (plus) "x = CHR ''+''" | (safe) "x = c" "urlencoded_safe c" | (pct) "x = CHR ''%''"
    | (hi) "x = hex_digit ((of_char c :: nat) div 16)"
    | (lo) "x = hex_digit ((of_char c :: nat) mod 16)"
    using x by (auto simp add: urlencode_byte_def split: if_splits)
  then show False
  proof cases
    case plus
    with n show False by simp
  next
    case safe
    with n show False by (auto simp add: urlencoded_safe_def Let_def)
  next
    case pct
    with n show False by simp
  next
    case hi
    have "?n = (if (of_char c :: nat) div 16 < 10 then 48 + (of_char c :: nat) div 16
                else 55 + (of_char c :: nat) div 16)"
      unfolding hi by (rule hex_digit_code) (rule of_char_div16)
    moreover have "(of_char c :: nat) div 16 < 16" by (rule of_char_div16)
    ultimately show False using n by (auto split: if_splits)
  next
    case lo
    have "?n = (if (of_char c :: nat) mod 16 < 10 then 48 + (of_char c :: nat) mod 16
                else 55 + (of_char c :: nat) mod 16)"
      unfolding lo by (rule hex_digit_code) simp
    moreover have "(of_char c :: nat) mod 16 < 16" by simp
    ultimately show False using n by (auto split: if_splits)
  qed
qed

lemma urlencode_chars: "x \<in> set (urlencode s) \<Longrightarrow> \<not> query_delimiter x"
  by (auto simp add: urlencode_def dest: urlencode_byte_chars)

lemma pair_no_amp: "CHR ''&'' \<notin> set (urlencode k @ ''='' @ urlencode v)"
  using urlencode_chars [of "CHR ''&''"] by (auto simp add: query_delimiter_def)

lemma urlencode_no_eq: "CHR ''='' \<notin> set (urlencode k)"
  using urlencode_chars [of "CHR ''=''"] by (auto simp add: query_delimiter_def)

lemma pair_key: "takeWhile (\<lambda>c. c \<noteq> CHR ''='') (urlencode k @ ''='' @ urlencode v) = urlencode k"
proof -
  have "\<forall>x \<in> set (urlencode k). x \<noteq> CHR ''=''" using urlencode_no_eq by auto
  then show ?thesis by (simp add: takeWhile_append1 takeWhile_append2)
qed

lemma pair_value:
  "tl (dropWhile (\<lambda>c. c \<noteq> CHR ''='') (urlencode k @ ''='' @ urlencode v)) = urlencode v"
proof -
  have "\<forall>x \<in> set (urlencode k). x \<noteq> CHR ''=''" using urlencode_no_eq by auto
  then show ?thesis by (simp add: dropWhile_append2)
qed

subsection \<open>The URL read back\<close>

lemma query_of_authorize: "query_of (''https://accounts.spotify.com/authorize?'' @ q) = q"
  by (simp add: query_of_def)

lemma query_pairs_serialized:
  assumes "ps \<noteq> []"
  shows "query_pairs (''https://accounts.spotify.com/authorize?'' @ usp_toString ps)
         = map (\<lambda>(k, v). (urlencode k, urlencode v)) ps"
proof -
  let ?seg = "\<lambda>(k, v). urlencode k @ ''='' @ urlencode v"
  from assms obtain p rest where ps: "ps = p # rest" by (cases ps) auto
  have q: "usp_toString ps = join_with [CHR ''&''] (?seg p # map ?seg rest)"
    by (simp add: usp_toString_def ps)
  have "\<forall>s \<in> set (?seg p # map ?seg rest). CHR ''&'' \<notin> set s"
    using pair_no_amp by (auto simp del: set_append)
  then have "split_on CHR ''&'' (usp_toString ps) = ?seg p # map ?seg rest"
    unfolding q by (rule split_on_join)
  then have sp: "split_on CHR ''&'' (usp_toString ps) = map ?seg ps" by (simp add: ps)
  have "?seg p \<noteq> []" by (cases p) simp
  then have ne: "usp_toString ps \<noteq> []"
    unfolding q by (rule join_with_nonempty)
  show ?thesis
    unfolding query_pairs_def query_of_authorize
    using ne by (simp add: sp pair_key pair_value split_def del: append.simps)
qed

text \<open>The parameters before \<open>sort()\<close>: the three fixed ones, then those whose guard passed.\<close>

lemma authorize_params_cases:
  "authorize_params c options =
     usp_sort ([(''client_id'', clientId c), (''response_type'', ''code''), (''redirect_uri'', redirectUri c)]
       @ (case optional_chain options opt_state of
            None \<Rightarrow> [] | Some s \<Rightarrow> if s \<noteq> [] then [(''state'', s)] else [])
       @ (case optional_chain options opt_scope of
            None \<Rightarrow> [] | Some s \<Rightarrow> if s \<noteq> [] then [(''scope'', s)] else [])
       @ (case optional_chain options opt_show_dialog of
            None \<Rightarrow> [] | Some b \<Rightarrow> if b then [(''show_dialog'', ''true'')] else []))"
  by (simp add: authorize_params_def usp_append_def Let_def split: option.splits)

lemma authorize_params_set:
  "set (authorize_params c options) =
     {(''client_id'', clientId c), (''response_type'', ''code''), (''redirect_uri'', redirectUri c)}
     \<union> (case optional_chain options opt_state of
          None \<Rightarrow> {} | Some s \<Rightarrow> if s \<noteq> [] then {(''state'', s)} else {})
     \<union> (case optional_chain options opt_scope of
          None \<Rightarrow> {} | Some s \<Rightarrow> if s \<noteq> [] then {(''scope'', s)} else {})
     \<union> (case optional_chain options opt_show_dialog of
          None \<Rightarrow> {} | Some b \<Rightarrow> if b then {(''show_dialog'', ''true'')} else {})"
proof -
  have "set (authorize_params c options) =
     set ([(''client_id'', clientId c), (''response_type'', ''code''), (''redirect_uri'', redirectUri c)]
       @ (case optional_chain options opt_state of
            None \<Rightarrow> [] | Some s \<Rightarrow> if s \<noteq> [] then [(''state'', s)] else [])
       @ (case optional_chain options opt_scope of
            None \<Rightarrow> [] | Some s \<Rightarrow> if s \<noteq> [] then [(''scope'', s)] else [])
       @ (case optional_chain options opt_show_dialog of
            None \<Rightarrow> [] | Some b \<Rightarrow> if b then [(''show_dialog'', ''true'')] else []))"
    unfolding authorize_params_cases usp_sort_def by (rule set_sort)
  then show ?thesis by (auto split: option.splits)
qed

lemma authorize_params_all:
  "st \<noteq> [] \<Longrightarrow> sc \<noteq> [] \<Longrightarrow>
   authorize_params c (Some \<lparr>opt_state = Some st, opt_scope = Some sc, opt_show_dialog = Some True\<rparr>)
   = [(''client_id'', clientId c), (''redirect_uri'', redirectUri c), (''response_type'', ''code''),
      (''scope'', sc), (''show_dialog'', ''true''), (''state'', st)]"
  by (simp add: authorize_params_cases optional_chain_def usp_sort_def)

lemma authorize_params_none:
  "authorize_params c None
   = [(''client_id'', clientId c), (''redirect_uri'', redirectUri c), (''response_type'', ''code'')]"
  by (simp add: authorize_params_cases optional_chain_def usp_sort_def)

lemma authorize_params_keys:
  "k \<in> fst ` set (authorize_params c options) \<Longrightarrow>
   k \<in> {''client_id'', ''response_type'', ''redirect_uri'', ''state'', ''scope'', ''show_dialog''}"
  by (auto simp add: authorize_params_set split: option.splits if_splits)

lemma urlencode_keys:
  "k \<in> {''client_id'', ''response_type'', ''redirect_uri'', ''state'', ''scope'', ''show_dialog''}
   \<Longrightarrow> urlencode k = k"
  by (auto simp add: urlencode_def urlencode_byte_def urlencoded_safe_def)

lemma authorize_params_nonempty: "authorize_params c options \<noteq> []"
proof -
  have "(''client_id'', clientId c) \<in> set (authorize_params c options)"
    by (simp add: authorize_params_set)
  then show ?thesis by auto
qed

text \<open>
  Reading the URL gives back the parameters \<open>generateAuthorizeUrl\<close> serialized, in their
  order, each value percent-encoded.
\<close>

lemma authorize_url_pairs:
  "query_pairs (generateAuthorizeUrl c options)
   = map (\<lambda>(k, v). (k, urlencode v)) (authorize_params c options)"
proof -
  have "query_pairs (generateAuthorizeUrl c options)
        = map (\<lambda>(k, v). (urlencode k, urlencode v)) (authorize_params c options)"
    unfolding generateAuthorizeUrl_def
    by (rule query_pairs_serialized) (rule authorize_params_nonempty)
  also have "\<dots> = map (\<lambda>(k, v). (k, urlencode v)) (authorize_params c options)"
  proof (rule map_cong [OF refl])
    fix p assume "p \<in> set (authorize_params c options)"
    then have "fst p \<in> fst ` set (authorize_params c options)" by simp
    then have "urlencode (fst p) = fst p"
      by (intro urlencode_keys authorize_params_keys)
    then show "(case p of (k, v) \<Rightarrow> (urlencode k, urlencode v))
               = (case p of (k, v) \<Rightarrow> (k, urlencode v))"
      by (cases p) simp
  qed
  finally show ?thesis .
qed

lemma authorize_url_keys:
  "query_keys (generateAuthorizeUrl c options) = map fst (authorize_params c options)"
  by (simp add: query_keys_def authorize_url_pairs split_def comp_def)

section \<open>The order of the query keys\<close>

text \<open>
  Claim C7 says that the query keys of the authorize URL are sorted, and that with all
  three options set the URL holds exactly the five parameters \<open>client_id\<close>,
  \<open>redirect_uri\<close>, \<open>response_type\<close>, \<open>scope\<close>, \<open>show_dialog\<close>, \<open>state\<close>. These are
  six: with state s, scope sc and \<open>show_dialog\<close> true the URL of the example client has
  six keys, not five.
\<close>

theorem authorize_url_six_parameters:
  "query_keys (generateAuthorizeUrl example_client
      (Some \<lparr>opt_state = Some ''s'', opt_scope = Some ''sc'', opt_show_dialog = Some True\<rparr>))
   = [''client_id'', ''redirect_uri'', ''response_type'', ''scope'', ''show_dialog'', ''state'']
   \<and> length (query_keys (generateAuthorizeUrl example_client
      (Some \<lparr>opt_state = Some ''s'', opt_scope = Some ''sc'', opt_show_dialog = Some True\<rparr>))) \<noteq> 5"
  by (simp add: authorize_url_keys authorize_params_all)

text \<open>
  Claim C7 as amended: for every client and every combination of the options, the keys
  of the URL's query stand in sorted order; with all three options set (a state and a
  scope that are not empty, \<open>show_dialog\<close> true) the query is exactly the six parameters
  \<open>client_id\<close>, \<open>redirect_uri\<close>, \<open>response_type\<close>, \<open>scope\<close>, \<open>show_dialog\<close>,
  \<open>state\<close> in this order, each with its percent-encoded value.
\<close>

theorem authorize_url_keys_sorted:
  "sorted (query_keys (generateAuthorizeUrl c options))
   \<and> (\<forall>st sc. st \<noteq> [] \<and> sc \<noteq> [] \<longrightarrow>
        query_pairs (generateAuthorizeUrl c
          (Some \<lparr>opt_state = Some st, opt_scope = Some sc, opt_show_dialog = Some True\<rparr>))
        = [(''client_id'', urlencode (clientId c)), (''redirect_uri'', urlencode (redirectUri c)),
           (''response_type'', ''code''), (''scope'', urlencode sc),
           (''show_dialog'', ''true''), (''state'', urlencode st)])"
proof (intro conjI allI impI)
  show "sorted (query_keys (generateAuthorizeUrl c options))"
    by (simp add: authorize_url_keys authorize_params_def Let_def usp_sort_def)
next
  fix st sc :: string
  assume "st \<noteq> [] \<and> sc \<noteq> []"
  then show "query_pairs (generateAuthorizeUrl c
          (Some \<lparr>opt_state = Some st, opt_scope = Some sc, opt_show_dialog = Some True\<rparr>))
        = [(''client_id'', urlencode (clientId c)), (''redirect_uri'', urlencode (redirectUri c)),
           (''response_type'', ''code''), (''scope'', urlencode sc),
           (''show_dialog'', ''true''), (''state'', urlencode st)]"
    by (simp add: authorize_url_pairs authorize_params_all)
       (simp add: urlencode_def urlencode_byte_def urlencoded_safe_def)
qed

theorem authorize_url_keys_sorted_witness:
  "sorted (query_keys (generateAuthorizeUrl example_client
      (Some \<lparr>opt_state = Some ''s'', opt_scope = None, opt_show_dialog = Some True\<rparr>)))
   \<and> query_pairs (generateAuthorizeUrl example_client
        (Some \<lparr>opt_state = Some ''s t'', opt_scope = Some ''sc'', opt_show_dialog = Some True\<rparr>))
     = [(''client_id'', ''test''), (''redirect_uri'', ''test''), (''response_type'', ''code''),
        (''scope'', ''sc''), (''show_dialog'', ''true''), (''state'', ''s+t'')]"
proof -
  have "''s t'' \<noteq> [] \<and> ''sc'' \<noteq> []" by simp
  with authorize_url_keys_sorted [of example_client
         "Some \<lparr>opt_state = Some ''s t'', opt_scope = Some ''sc'', opt_show_dialog = Some True\<rparr>"]
  have "query_pairs (generateAuthorizeUrl example_client
        (Some \<lparr>opt_state = Some ''s t'', opt_scope = Some ''sc'', opt_show_dialog = Some True\<rparr>))
     = [(''client_id'', urlencode (clientId example_client)),
        (''redirect_uri'', urlencode (redirectUri example_client)),
        (''response_type'', ''code''), (''scope'', urlencode ''sc''),
        (''show_dialog'', ''true''), (''state'', urlencode ''s t'')]"
    by blast
  then show ?thesis
    using authorize_url_keys_sorted [of example_client
         "Some \<lparr>opt_state = Some ''s'', opt_scope = None, opt_show_dialog = Some True\<rparr>"]
    by (simp add: example_client_fields urlencode_def urlencode_byte_def urlencoded_safe_def)
qed

section \<open>The URL with no options\<close>

text \<open>
  Claim C8: a client constructed with \<open>clientId\<close> test and \<open>redirectUri\<close> test, whatever
  the rest of its configuration, gives for \<open>generateAuthorizeUrl()\<close> exactly the URL
  below. \<open>generateAuthorizeUrl\<close> is a function of the client and the options alone: it
  has no access to the transport.
\<close>

theorem authorize_url_plain:
  "generateAuthorizeUrl
     (new_client (config\<lparr>cfg_clientId := ''test'', cfg_redirectUri := ''test''\<rparr>)) None
   = ''https://accounts.spotify.com/authorize?client_id=test&redirect_uri=test&response_type=code''"
  by (simp add: generateAuthorizeUrl_def authorize_params_none new_client_def setAccessToken_def
      usp_toString_def join_with_def urlencode_def urlencode_byte_def urlencoded_safe_def)

theorem authorize_url_plain_witness:
  "generateAuthorizeUrl (new_client example_config) None
   = ''https://accounts.spotify.com/authorize?client_id=test&redirect_uri=test&response_type=code''"
  using authorize_url_plain [of example_config] by (simp add: example_config_def)

section \<open>Undefined arguments of the endpoint methods\<close>

lemma optional_args_passed:
  "set (optional_args ec) \<subseteq> set (config_entries (endpoint_config ec))"
  by (cases ec) (auto simp add: config_entries_def api_request_def split: option.splits)

lemma config_entries_distinct: "distinct (map fst (config_entries (endpoint_config ec)))"
  by (cases ec) (simp_all add: config_entries_def api_request_def)

lemma outgoing_query_entry:
  "(k, v) \<in> set (outgoing_query config) \<Longrightarrow>
   (k, v) \<in> set (config_entries config) \<and> v \<noteq> JUndefined"
  by (auto simp add: outgoing_query_def config_entries_def split: option.splits)

lemma outgoing_body_entry:
  "(k, v) \<in> set (outgoing_body config) \<Longrightarrow>
   (k, v) \<in> set (config_entries config) \<and> v \<noteq> JUndefined"
  by (auto simp add: outgoing_body_def config_entries_def split: req_data.splits)

text \<open>
  Claim C9: for every endpoint method, an optional parameter passed as \<open>undefined\<close> is
  absent from the query parameters and the body of the outgoing request, and is never
  written as the text "undefined". The client passes every such argument on as it is, as
  one property of \<open>params\<close> or \<open>data\<close> under the parameter's name, and no two
  properties share a name; so an argument that is \<open>undefined\<close> is the value \<open>undefined\<close>
  there and not a string. The transport leaves such a property out: its name is not among
  the query parameters nor in the body it writes, and no value it writes is \<open>undefined\<close>.
\<close>

theorem undefined_arguments_omitted:
  "set (optional_args ec) \<subseteq> set (config_entries (endpoint_config ec))
   \<and> distinct (map fst (config_entries (endpoint_config ec)))
   \<and> ((k, JUndefined) \<in> set (optional_args ec) \<longrightarrow>
        k \<notin> fst ` set (outgoing_query (endpoint_config ec))
        \<and> k \<notin> fst ` set (outgoing_body (endpoint_config ec)))
   \<and> JUndefined \<notin> snd ` set (outgoing_query (endpoint_config ec))
   \<and> JUndefined \<notin> snd ` set (outgoing_body (endpoint_config ec))"
proof (intro conjI impI)
  show "set (optional_args ec) \<subseteq> set (config_entries (endpoint_config ec))"
    by (rule optional_args_passed)
  show "distinct (map fst (config_entries (endpoint_config ec)))"
    by (rule config_entries_distinct)
  show "JUndefined \<notin> snd ` set (outgoing_query (endpoint_config ec))"
    using outgoing_query_entry by fastforce
  show "JUndefined \<notin> snd ` set (outgoing_body (endpoint_config ec))"
    using outgoing_body_entry by fastforce
next
  assume "(k, JUndefined) \<in> set (optional_args ec)"
  then have u: "(k, JUndefined) \<in> set (config_entries (endpoint_config ec))"
    using optional_args_passed by blast
  have only: "\<And>v. (k, v) \<in> set (config_entries (endpoint_config ec)) \<Longrightarrow> v = JUndefined"
    using u config_entries_distinct eq_key_imp_eq_value by fastforce
  show "k \<notin> fst ` set (outgoing_query (endpoint_config ec))"
  proof
    assume "k \<in> fst ` set (outgoing_query (endpoint_config ec))"
    then obtain v where "(k, v) \<in> set (outgoing_query (endpoint_config ec))" by auto
    then have "(k, v) \<in> set (config_entries (endpoint_config ec)) \<and> v \<noteq> JUndefined"
      by (rule outgoing_query_entry)
    with only show False by blast
  qed
  show "k \<notin> fst ` set (outgoing_body (endpoint_config ec))"
  proof
    assume "k \<in> fst ` set (outgoing_body (endpoint_config ec))"
    then obtain v where "(k, v) \<in> set (outgoing_body (endpoint_config ec))" by auto
    then have "(k, v) \<in> set (config_entries (endpoint_config ec)) \<and> v \<noteq> JUndefined"
      by (rule outgoing_body_entry)
    with only show False by blast
  qed
qed

text \<open>
  A search with no market and no offset, and a playback start with no device, no list of
  tracks and no offset.
\<close>

theorem undefined_arguments_witness:
  "(''market'', JUndefined) \<in> set (optional_args (Search ''the killers'' ''artist'' JUndefined (JStr ''5'') JUndefined))
   \<and> ''market'' \<notin> fst ` set (outgoing_query
        (endpoint_config (Search ''the killers'' ''artist'' JUndefined (JStr ''5'') JUndefined)))
   \<and> outgoing_query (endpoint_config (Search ''the killers'' ''artist'' JUndefined (JStr ''5'') JUndefined))
        = [(''q'', JStr ''the killers''), (''type'', JStr ''artist''), (''limit'', JStr ''5'')]
   \<and> (''uris'', JUndefined) \<in> set (optional_args
        (StartPlayback JUndefined (JStr ''spotify:album:1'') JUndefined JUndefined (JNum 0)))
   \<and> ''uris'' \<notin> fst ` set (outgoing_body (endpoint_config
        (StartPlayback JUndefined (JStr ''spotify:album:1'') JUndefined JUndefined (JNum 0))))
   \<and> outgoing_body (endpoint_config
        (StartPlayback JUndefined (JStr ''spotify:album:1'') JUndefined JUndefined (JNum 0)))
        = [(''context_uri'', JStr ''spotify:album:1''), (''position_ms'', JNum 0)]"
  using undefined_arguments_omitted
          [of "Search ''the killers'' ''artist'' JUndefined (JStr ''5'') JUndefined" "''market''"]
        undefined_arguments_omitted
          [of "StartPlayback JUndefined (JStr ''spotify:album:1'') JUndefined JUndefined (JNum 0)" "''uris''"]
  by (simp add: outgoing_query_def outgoing_body_def api_request_def)

section \<open>Options that are not truthy\<close>

text \<open>
  Claim C10: \<open>generateAuthorizeUrl\<close> writes an optional parameter only when its value is
  truthy. For every client and options: \<open>show_dialog\<close> is a key of the URL exactly when
  the option is \<open>true\<close>, \<open>state\<close> and \<open>scope\<close> exactly when the option is a string
  that is not empty; and the only value \<open>show_dialog\<close> ever has in the URL is "true".
\<close>

theorem authorize_url_truthy_only:
  "(''show_dialog'' \<in> set (query_keys (generateAuthorizeUrl c options)))
     = (optional_chain options opt_show_dialog = Some True)
   \<and> (''state'' \<in> set (query_keys (generateAuthorizeUrl c options)))
     = (\<exists>s. optional_chain options opt_state = Some s \<and> s \<noteq> [])
   \<and> (''scope'' \<in> set (query_keys (generateAuthorizeUrl c options)))
     = (\<exists>s. optional_chain options opt_scope = Some s \<and> s \<noteq> [])
   \<and> (\<forall>v. (''show_dialog'', v) \<in> set (query_pairs (generateAuthorizeUrl c options))
        \<longrightarrow> v = ''true'')"
proof (intro conjI allI impI)
  show "(''show_dialog'' \<in> set (query_keys (generateAuthorizeUrl c options)))
     = (optional_chain options opt_show_dialog = Some True)"
    by (auto simp add: authorize_url_keys authorize_params_set split: option.splits if_splits)
  show "(''state'' \<in> set (query_keys (generateAuthorizeUrl c options)))
     = (\<exists>s. optional_chain options opt_state = Some s \<and> s \<noteq> [])"
    by (auto simp add: authorize_url_keys authorize_params_set split: option.splits if_splits)
  show "(''scope'' \<in> set (query_keys (generateAuthorizeUrl c options)))
     = (\<exists>s. optional_chain options opt_scope = Some s \<and> s \<noteq> [])"
    by (auto simp add: authorize_url_keys authorize_params_set split: option.splits if_splits)
next
  fix v
  assume "(''show_dialog'', v) \<in> set (query_pairs (generateAuthorizeUrl c options))"
  then obtain v0 where "(''show_dialog'', v0) \<in> set (authorize_params c options)" "v = urlencode v0"
    by (auto simp add: authorize_url_pairs)
  moreover from this have "v0 = ''true''"
    by (auto simp add: authorize_params_set split: option.splits if_splits)
  ultimately show "v = ''true''"
    by (simp add: urlencode_def urlencode_byte_def urlencoded_safe_def)
qed

text \<open>
  With \<open>show_dialog\<close> false and an empty state the URL has neither key; with
  \<open>show_dialog\<close> true it has the key, and not with the value "false".
\<close>

theorem authorize_url_truthy_only_witness:
  "optional_chain (Some \<lparr>opt_state = Some [], opt_scope = None, opt_show_dialog = Some False\<rparr>)
      opt_show_dialog \<noteq> Some True
   \<and> ''show_dialog'' \<notin> set (query_keys (generateAuthorizeUrl example_client
        (Some \<lparr>opt_state = Some [], opt_scope = None, opt_show_dialog = Some False\<rparr>)))
   \<and> ''state'' \<notin> set (query_keys (generateAuthorizeUrl example_client
        (Some \<lparr>opt_state = Some [], opt_scope = None, opt_show_dialog = Some False\<rparr>)))
   \<and> ''show_dialog'' \<in> set (query_keys (generateAuthorizeUrl example_client
        (Some \<lparr>opt_state = None, opt_scope = None, opt_show_dialog = Some True\<rparr>)))
   \<and> (''show_dialog'', ''false'') \<notin> set (query_pairs (generateAuthorizeUrl example_client
        (Some \<lparr>opt_state = None, opt_scope = None, opt_show_dialog = Some True\<rparr>)))"
  using authorize_url_truthy_only
          [of example_client "Some \<lparr>opt_state = Some [], opt_scope = None, opt_show_dialog = Some False\<rparr>"]
        authorize_url_truthy_only
          [of example_client "Some \<lparr>opt_state = None, opt_scope = None, opt_show_dialog = Some True\<rparr>"]
  by (auto simp add: optional_chain_def)

end
